theory Spec2Isabelle
  imports Main
begin

section \<open>The memoize handler of \<^verbatim>\<open>src/memoize/handler.hpp\<close>\<close>

text \<open>
  The handler is called once for every matched function definition. It reads a few
  fields of the matched declaration, cuts the parameter list out of the source buffer
  and calls the rewriter three times. The declaration, the source buffer and the
  rewriter belong to the compiler front end; the model keeps of them what the handler
  reads and writes and nothing more.
\<close>

subsection \<open>Data\<close>

text \<open>
  A source location is an offset into the source buffer of the file being rewritten.
  \<^verbatim>\<open>getLocWithOffset\<close> adds a signed offset, so locations are integers. Source
  locations of the front end are 32 bits wide, which bounds every identifier far below
  \<open>2^31\<close> characters; the conversions of \<^verbatim>\<open>Name.length()\<close> to the \<^verbatim>\<open>int\<close>
  argument of \<^verbatim>\<open>getLocWithOffset\<close> are therefore exact, and the one wrap that can
  happen, \<^verbatim>\<open>OriginalName.length() - 1\<close> for an empty name, gives \<open>-1\<close> as the
  integer subtraction does.
\<close>

type_synonym SourceLocation = int

text \<open>
  A parameter. \<^verbatim>\<open>getNameAsString\<close> of a parameter without an identifier is the
  empty string. The type text is never read by the handler (it copies the parameter
  list from the source buffer); it is kept to state what the parameter list should be.
\<close>

record ParmVarDecl =
  Identifier :: "string option"
  TypeAsString :: string

definition getNameAsString :: "ParmVarDecl \<Rightarrow> string" where
  "getNameAsString Parameter = (case Identifier Parameter of None \<Rightarrow> [] | Some n \<Rightarrow> n)"

text \<open>
  The fields of \<^verbatim>\<open>clang::FunctionDecl\<close> the handler reads: \<^verbatim>\<open>getNameAsString()\<close>,
  \<^verbatim>\<open>getReturnType().getAsString()\<close>, \<^verbatim>\<open>parameters()\<close>, \<^verbatim>\<open>getLocStart()\<close> (the first
  character of the definition), \<^verbatim>\<open>getLocation()\<close> (the first character of the name),
  \<^verbatim>\<open>getLocEnd()\<close> (the closing brace) and \<^verbatim>\<open>getBody()->getLocStart()\<close> (the opening
  brace; \<^verbatim>\<open>getBody()\<close> is null for a function without a body). The handler never
  asks where the return type is written, \<^verbatim>\<open>getReturnTypeSourceRange().getBegin()\<close>;
  that location is kept to state where the rename should start. It is the start of the
  definition unless something, a storage class for one, is written before the type.
\<close>

record FunctionDecl =
  NameAsString :: string
  ReturnType :: string
  Parameters :: "ParmVarDecl list"
  LocStart :: SourceLocation
  Location :: SourceLocation
  LocEnd :: SourceLocation
  BodyLocStart :: "SourceLocation option"
  ReturnTypeBegin :: SourceLocation

text \<open>
  What \<^verbatim>\<open>run\<close> reads of the match result: the source manager, here the source buffer
  it gives access to, and the node bound to \<^verbatim>\<open>"target"\<close>, null when nothing is bound.
\<close>

record MatchResult =
  ResultSourceManager :: string
  Target :: "FunctionDecl option"

text \<open>
  The three calls the handler makes on \<^verbatim>\<open>clang::Rewriter\<close>, with their arguments.
  \<^verbatim>\<open>ReplaceText\<close> takes a source range, given by the locations of its first and of its
  last token.
\<close>

datatype edit =
  ReplaceText SourceLocation SourceLocation string
| InsertTextAfter SourceLocation string
| InsertTextBefore SourceLocation string

text \<open>
  The state of the handler: the rewriter it refers to, as the sequence of calls it has
  received so far, and the source manager stored by \<^verbatim>\<open>run\<close>. The language
  options \<^verbatim>\<open>run\<close> stores as well are never read and are left out.
\<close>

record MemoizeHandler =
  Rewriter :: "edit list"
  SourceManager :: string

text \<open>
  The ways the handler can stop without returning: the target node is null (it is
  dereferenced on line 70 and asserted on line 72), the function has no body
  (\<^verbatim>\<open>getBody()\<close> is dereferenced on line 211), or the two pointers handed to the
  \<^verbatim>\<open>std::string\<close> constructor on line 215 do not delimit characters of the buffer.
\<close>

datatype error = NullTarget | NullBody | BadCharacterRange

subsection \<open>Operations\<close>

text \<open>
  The loop of \<^verbatim>\<open>getParameterNames\<close> (lines 135 to 141): \<open>index\<close> counts the
  parameters appended so far, and the separator follows a name when the incremented
  index is still below \<^verbatim>\<open>getNumParams()\<close>.
\<close>

fun getParameterNames_loop :: "nat \<Rightarrow> nat \<Rightarrow> ParmVarDecl list \<Rightarrow> string \<Rightarrow> string" where
  "getParameterNames_loop NumParams index [] ParameterNames = ParameterNames"
| "getParameterNames_loop NumParams index (Parameter # rest) ParameterNames =
     getParameterNames_loop NumParams (Suc index) rest
       (ParameterNames @ getNameAsString Parameter @
          (if Suc index < NumParams then '', '' else []))"

definition getParameterNames :: "FunctionDecl \<Rightarrow> string" where
  "getParameterNames Function =
     getParameterNames_loop (length (Parameters Function)) 0 (Parameters Function) []"

definition createMemoizedDefinition :: "FunctionDecl \<Rightarrow> string \<Rightarrow> string \<Rightarrow> string" where
  "createMemoizedDefinition Function Prototype NewName =
     ''\<newline>\<newline>'' @ Prototype @ '' {\<newline>static const auto proxy = memoize('' @ NewName @
     '');\<newline>return proxy('' @ getParameterNames Function @ '');\<newline>}''"

text \<open>
  \<^verbatim>\<open>renameOriginalFunction\<close> makes the first call on the rewriter and returns the new
  name.
\<close>

definition renameOriginalFunction :: "MemoizeHandler \<Rightarrow> FunctionDecl \<Rightarrow> string \<times> MemoizeHandler" where
  "renameOriginalFunction h Function =
     (let OriginalName = NameAsString Function;
          NewName = OriginalName @ ''__original__'';
          BeforeParameters = Location Function + (int (length OriginalName) - 1);
          DeclarationBegin = LocStart Function;
          NewDeclaration = ReturnType Function @ '' '' @ NewName
      in (NewName,
          h\<lparr>Rewriter := Rewriter h @ [ReplaceText DeclarationBegin BeforeParameters NewDeclaration]\<rparr>))"

text \<open>
  \<^verbatim>\<open>std::string(first, last)\<close> on two pointers into the buffer obtained from
  \<^verbatim>\<open>getCharacterData\<close>: the characters from \<open>First\<close> up to, not including,
  \<open>Last\<close>.
\<close>

definition characterRange :: "string \<Rightarrow> SourceLocation \<Rightarrow> SourceLocation \<Rightarrow> error + string" where
  "characterRange buffer First Last =
     (if 0 \<le> First \<and> First \<le> Last \<and> Last \<le> int (length buffer)
      then Inr (take (nat (Last - First)) (drop (nat First) buffer))
      else Inl BadCharacterRange)"

definition getParameterList :: "MemoizeHandler \<Rightarrow> FunctionDecl \<Rightarrow> string \<Rightarrow> error + string" where
  "getParameterList h Function Name =
     (let BeforeParametersLocation = Location Function + int (length Name)
      in case BodyLocStart Function of
           None \<Rightarrow> Inl NullBody
         | Some BodyStart \<Rightarrow>
             (let AfterParametersLocation = BodyStart + (- 1)
              in characterRange (SourceManager h) BeforeParametersLocation AfterParametersLocation))"

definition getFunctionPrototype :: "MemoizeHandler \<Rightarrow> FunctionDecl \<Rightarrow> error + string" where
  "getFunctionPrototype h Function =
     (let Name = NameAsString Function
      in case getParameterList h Function Name of
           Inl e \<Rightarrow> Inl e
         | Inr ParameterList \<Rightarrow> Inr (ReturnType Function @ '' '' @ Name @ ParameterList))"

text \<open>
  \<^verbatim>\<open>run\<close> returns the handler's state together with the error that stopped it, if one
  did; the calls already made on the rewriter stay made.
\<close>

definition run :: "MatchResult \<Rightarrow> MemoizeHandler \<Rightarrow> error option \<times> MemoizeHandler" where
  "run Result h =
     (let h0 = h\<lparr>SourceManager := ResultSourceManager Result\<rparr>
      in case Target Result of
           None \<Rightarrow> (Some NullTarget, h0)
         | Some Function \<Rightarrow>
             (let (NewName, h1) = renameOriginalFunction h0 Function
              in case getFunctionPrototype h1 Function of
                   Inl e \<Rightarrow> (Some e, h1)
                 | Inr Prototype \<Rightarrow>
                     (let NewDefinition = createMemoizedDefinition Function Prototype NewName;
                          AfterOriginalFunction = LocEnd Function + 1;
                          h2 = h1\<lparr>Rewriter := Rewriter h1 @
                                 [InsertTextAfter AfterOriginalFunction NewDefinition]\<rparr>
                      in (None,
                          h2\<lparr>Rewriter := Rewriter h2 @
                                [InsertTextBefore (LocStart Function) (Prototype @ '';\<newline>'')]\<rparr>))))"

subsection \<open>Vocabulary of the specification\<close>

text \<open>
  A list of texts separated by a comma and a space, with no separator after the last
  one; the empty list gives the empty string.
\<close>

fun commaSeparated :: "string list \<Rightarrow> string" where
  "commaSeparated [] = []"
| "commaSeparated [n] = n"
| "commaSeparated (n # m # rest) = n @ '', '' @ commaSeparated (m # rest)"

text \<open>
  The calls one invocation of \<^verbatim>\<open>run\<close> adds to those the rewriter had received
  before.
\<close>

definition submitted :: "MatchResult \<Rightarrow> MemoizeHandler \<Rightarrow> edit list" where
  "submitted Result h = drop (length (Rewriter h)) (Rewriter (snd (run Result h)))"

datatype editKind = Replace | InsertAfter | InsertBefore

fun kindOf :: "edit \<Rightarrow> editKind" where
  "kindOf (ReplaceText b e t) = Replace"
| "kindOf (InsertTextAfter l t) = InsertAfter"
| "kindOf (InsertTextBefore l t) = InsertBefore"

text \<open>
  A matched function definition as the front end reports it: the definition starts
  inside the buffer, its name does not start before it and is not empty, at least one
  character lies between the end of the name and the opening brace of the body, and the
  closing brace comes no earlier than the opening one and lies inside the buffer.
\<close>

definition wellFormed :: "string \<Rightarrow> FunctionDecl \<Rightarrow> bool" where
  "wellFormed buffer Function =
     (case BodyLocStart Function of
        None \<Rightarrow> False
      | Some BodyStart \<Rightarrow>
          0 \<le> LocStart Function \<and> LocStart Function \<le> Location Function \<and>
          NameAsString Function \<noteq> [] \<and>
          Location Function + int (length (NameAsString Function)) < BodyStart \<and>
          BodyStart \<le> LocEnd Function \<and> LocEnd Function < int (length buffer))"

text \<open>
  The source locations a call on the rewriter refers to, and the locations of the
  original buffer it touches: a replacement touches every location from the first
  token of its range to the last (that token is the final character of the function's
  name, which the lexer measures as one character), an insertion touches its insertion
  point.
\<close>

fun editLocations :: "edit \<Rightarrow> SourceLocation list" where
  "editLocations (ReplaceText b e t) = [b, e]"
| "editLocations (InsertTextAfter l t) = [l]"
| "editLocations (InsertTextBefore l t) = [l]"

fun editTouches :: "edit \<Rightarrow> SourceLocation \<Rightarrow> bool" where
  "editTouches (ReplaceText b e t) k = (b \<le> k \<and> k \<le> e)"
| "editTouches (InsertTextAfter l t) k = (k = l)"
| "editTouches (InsertTextBefore l t) k = (k = l)"

text \<open>The locations of the body, from its opening to its closing brace.\<close>

definition insideBody :: "FunctionDecl \<Rightarrow> SourceLocation \<Rightarrow> bool" where
  "insideBody Function k =
     (case BodyLocStart Function of
        None \<Rightarrow> False
      | Some BodyStart \<Rightarrow> BodyStart \<le> k \<and> k \<le> LocEnd Function)"

text \<open>
  The edit-order property in the words of the specification: the target of every
  \<^verbatim>\<open>InsertTextBefore\<close> is strictly less than every location the replacements and
  the \<^verbatim>\<open>InsertTextAfter\<close> calls refer to.
\<close>

fun insertBeforeTargets :: "edit list \<Rightarrow> SourceLocation list" where
  "insertBeforeTargets [] = []"
| "insertBeforeTargets (InsertTextBefore l t # es) = l # insertBeforeTargets es"
| "insertBeforeTargets (e # es) = insertBeforeTargets es"

fun otherLocations :: "edit list \<Rightarrow> SourceLocation list" where
  "otherLocations [] = []"
| "otherLocations (InsertTextBefore l t # es) = otherLocations es"
| "otherLocations (e # es) = editLocations e @ otherLocations es"

definition insertBeforeStrictlyBelow :: "edit list \<Rightarrow> bool" where
  "insertBeforeStrictlyBelow es =
     list_all (\<lambda>k. list_all (\<lambda>l. k < l) (otherLocations es)) (insertBeforeTargets es)"

text \<open>
  The parameter list in the words of the specification: \<open>(T1 n1, T2 n2, ..)\<close>, and the
  prototype: the return type, the name and the parameter list.
\<close>

definition parameterListText :: "ParmVarDecl list \<Rightarrow> string" where
  "parameterListText ps =
     ''('' @ commaSeparated (map (\<lambda>p. TypeAsString p @ '' '' @ getNameAsString p) ps) @ '')''"

definition prototypeText :: "FunctionDecl \<Rightarrow> string" where
  "prototypeText Function =
     ReturnType Function @ '' '' @ NameAsString Function @ parameterListText (Parameters Function)"

text \<open>
  The wrapper and the forward declaration built from that prototype: the wrapper is the
  prototype followed by a body that keeps one static cache, made by the memoization
  primitive from the mangled name, and returns the cache applied to the parameter
  names; the forward declaration is the prototype followed by its terminator.
\<close>

definition wrapperText :: "FunctionDecl \<Rightarrow> string" where
  "wrapperText Function =
     ''\<newline>\<newline>'' @ prototypeText Function @
     '' {\<newline>static const auto proxy = memoize('' @ (NameAsString Function @ ''__original__'') @
     '');\<newline>return proxy('' @ commaSeparated (map getNameAsString (Parameters Function)) @
     '');\<newline>}''"

definition forwardDeclarationText :: "FunctionDecl \<Rightarrow> string" where
  "forwardDeclarationText Function = prototypeText Function @ '';\<newline>''"


subsection \<open>Example inputs\<close>

text \<open>
  The function of the handler's own documentation,
  \<^verbatim>\<open>int f(int x, float y, char z) { return x + y + z; }\<close>, alone in its file.
\<close>

definition exampleSource :: string where
  "exampleSource = ''int f(int x, float y, char z) { return x + y + z; }''"

definition exampleFunction :: FunctionDecl where
  "exampleFunction =
     \<lparr>NameAsString = ''f'', ReturnType = ''int'',
      Parameters = [\<lparr>Identifier = Some ''x'', TypeAsString = ''int''\<rparr>,
                    \<lparr>Identifier = Some ''y'', TypeAsString = ''float''\<rparr>,
                    \<lparr>Identifier = Some ''z'', TypeAsString = ''char''\<rparr>],
      LocStart = 0, Location = 4, LocEnd = 50, BodyLocStart = Some 30,
      ReturnTypeBegin = 0\<rparr>"

definition exampleResult :: MatchResult where
  "exampleResult = \<lparr>ResultSourceManager = exampleSource, Target = Some exampleFunction\<rparr>"

definition freshHandler :: MemoizeHandler where
  "freshHandler = \<lparr>Rewriter = [], SourceManager = []\<rparr>"

text \<open>
  The same function written without a blank between the closing parenthesis and the
  opening brace, \<^verbatim>\<open>int f(int x){ return x; }\<close>.
\<close>

definition tightSource :: string where
  "tightSource = ''int f(int x){ return x; }''"

definition tightFunction :: FunctionDecl where
  "tightFunction =
     \<lparr>NameAsString = ''f'', ReturnType = ''int'',
      Parameters = [\<lparr>Identifier = Some ''x'', TypeAsString = ''int''\<rparr>],
      LocStart = 0, Location = 4, LocEnd = 24, BodyLocStart = Some 12,
      ReturnTypeBegin = 0\<rparr>"

definition tightResult :: MatchResult where
  "tightResult = \<lparr>ResultSourceManager = tightSource, Target = Some tightFunction\<rparr>"





section \<open>Properties\<close>

lemma commaSeparated_Cons:
  "commaSeparated (n # ns) = n @ (if ns = [] then [] else '', '' @ commaSeparated ns)"
  by (cases ns) simp_all

lemma getParameterNames_loop_commaSeparated:
  "index + length ps = NumParams \<Longrightarrow>
   getParameterNames_loop NumParams index ps acc = acc @ commaSeparated (map getNameAsString ps)"
proof (induction ps arbitrary: index acc)
  case Nil
  show ?case by simp
next
  case (Cons p ps)
  have more: "Suc index < NumParams \<longleftrightarrow> ps \<noteq> []"
    using Cons.prems by auto
  have "Suc index + length ps = NumParams"
    using Cons.prems by simp
  from Cons.IH [OF this] more show ?case
    by (simp add: commaSeparated_Cons del: commaSeparated.simps(2,3))
qed

text \<open>
  C6. The parameter-name forwarding list of a function with parameters \<open>n1 .. nk\<close> is
  \<open>n1, n2, .., nk\<close>: the names alone, in declared order, separated by a comma and a space,
  nothing after the last name; for an empty parameter list it is the empty string.
\<close>

theorem getParameterNames_commaSeparated:
  "getParameterNames Function = commaSeparated (map getNameAsString (Parameters Function))
   \<and> getParameterNames (Function\<lparr>Parameters := []\<rparr>) = []"
  by (simp add: getParameterNames_def getParameterNames_loop_commaSeparated)

subsection \<open>What one invocation submits\<close>

lemma getParameterList_Rewriter:
  "getParameterList (h\<lparr>Rewriter := r\<rparr>) Function Name = getParameterList h Function Name"
  by (simp add: getParameterList_def split: option.splits)

lemma getFunctionPrototype_Rewriter:
  "getFunctionPrototype (h\<lparr>Rewriter := r\<rparr>) Function = getFunctionPrototype h Function"
  by (simp add: getFunctionPrototype_def getParameterList_Rewriter)

lemma run_Some:
  assumes "Target Result = Some f"
    and "getParameterList (h\<lparr>SourceManager := ResultSourceManager Result\<rparr>) f (NameAsString f) = Inr PL"
  shows "run Result h =
    (None, h\<lparr>SourceManager := ResultSourceManager Result,
              Rewriter := Rewriter h @
                [ReplaceText (LocStart f) (Location f + (int (length (NameAsString f)) - 1))
                   (ReturnType f @ '' '' @ NameAsString f @ ''__original__''),
                 InsertTextAfter (LocEnd f + 1)
                   (createMemoizedDefinition f (ReturnType f @ '' '' @ NameAsString f @ PL)
                      (NameAsString f @ ''__original__'')),
                 InsertTextBefore (LocStart f)
                   (ReturnType f @ '' '' @ NameAsString f @ PL @ '';\<newline>'')]\<rparr>)"
  using assms
  by (simp add: run_def renameOriginalFunction_def getFunctionPrototype_def
      getParameterList_Rewriter Let_def)

lemma submitted_Some:
  assumes "Target Result = Some f"
    and "getParameterList (h\<lparr>SourceManager := ResultSourceManager Result\<rparr>) f (NameAsString f) = Inr PL"
  shows "submitted Result h =
    [ReplaceText (LocStart f) (Location f + (int (length (NameAsString f)) - 1))
       (ReturnType f @ '' '' @ NameAsString f @ ''__original__''),
     InsertTextAfter (LocEnd f + 1)
       (createMemoizedDefinition f (ReturnType f @ '' '' @ NameAsString f @ PL)
          (NameAsString f @ ''__original__'')),
     InsertTextBefore (LocStart f)
       (ReturnType f @ '' '' @ NameAsString f @ PL @ '';\<newline>'')]"
  by (simp add: submitted_def run_Some [OF assms])

lemma run_Some_failed:
  assumes "Target Result = Some f"
    and "getParameterList (h\<lparr>SourceManager := ResultSourceManager Result\<rparr>) f (NameAsString f) = Inl e"
  shows "run Result h =
    (Some e, h\<lparr>SourceManager := ResultSourceManager Result,
                Rewriter := Rewriter h @
                  [ReplaceText (LocStart f) (Location f + (int (length (NameAsString f)) - 1))
                     (ReturnType f @ '' '' @ NameAsString f @ ''__original__'')]\<rparr>)"
  using assms
  by (simp add: run_def renameOriginalFunction_def getFunctionPrototype_def
      getParameterList_Rewriter Let_def)

lemma getParameterList_wellFormed:
  assumes "wellFormed buffer f" and "SourceManager h = buffer"
  shows "\<exists>PL. getParameterList h f (NameAsString f) = Inr PL"
  using assms
  by (auto simp: wellFormed_def getParameterList_def characterRange_def split: option.splits)

lemma submitted_first:
  assumes "Target Result = Some f"
  shows "take 1 (submitted Result h) =
    [ReplaceText (LocStart f) (Location f + (int (length (NameAsString f)) - 1))
       (ReturnType f @ '' '' @ NameAsString f @ ''__original__'')]"
proof (cases "getParameterList (h\<lparr>SourceManager := ResultSourceManager Result\<rparr>) f (NameAsString f)")
  case (Inl e)
  show ?thesis
    by (simp add: submitted_def run_Some_failed [OF assms Inl])
next
  case (Inr PL)
  show ?thesis
    by (simp add: submitted_Some [OF assms Inr])
qed

lemma example_Target: "Target exampleResult = Some exampleFunction"
  by (simp add: exampleResult_def)

lemma example_wellFormed: "wellFormed (ResultSourceManager exampleResult) exampleFunction"
  by (simp add: exampleResult_def exampleSource_def exampleFunction_def wellFormed_def)

lemma example_getParameterList:
  "getParameterList (freshHandler\<lparr>SourceManager := ResultSourceManager exampleResult\<rparr>)
     exampleFunction (NameAsString exampleFunction) = Inr ''(int x, float y, char z)''"
  by (simp add: getParameterList_def characterRange_def exampleResult_def exampleSource_def
      exampleFunction_def freshHandler_def)

text \<open>
  C1. For a valid matched function one invocation of \<^verbatim>\<open>run\<close> returns without error
  and submits exactly three edits, a replacement, an insertion after and an insertion
  before, in this order, after the edits the rewriter already held.
\<close>

theorem run_submits_three_edits:
  assumes "Target Result = Some f"
    and "wellFormed (ResultSourceManager Result) f"
  shows "fst (run Result h) = None
    \<and> Rewriter (snd (run Result h)) = Rewriter h @ submitted Result h
    \<and> map kindOf (submitted Result h) = [Replace, InsertAfter, InsertBefore]"
proof -
  obtain PL where PL:
    "getParameterList (h\<lparr>SourceManager := ResultSourceManager Result\<rparr>) f (NameAsString f) = Inr PL"
    using getParameterList_wellFormed [OF assms(2), of "h\<lparr>SourceManager := ResultSourceManager Result\<rparr>"]
    by auto
  show ?thesis
    by (simp add: submitted_Some [OF assms(1) PL] run_Some [OF assms(1) PL])
qed

theorem run_submits_three_edits_witness:
  "fst (run exampleResult freshHandler) = None
   \<and> Rewriter (snd (run exampleResult freshHandler)) =
       Rewriter freshHandler @ submitted exampleResult freshHandler
   \<and> map kindOf (submitted exampleResult freshHandler) = [Replace, InsertAfter, InsertBefore]"
  by (rule run_submits_three_edits [OF example_Target example_wellFormed])

lemma tight_Target: "Target tightResult = Some tightFunction"
  by (simp add: tightResult_def)

lemma tight_getParameterList:
  "getParameterList (freshHandler\<lparr>SourceManager := ResultSourceManager tightResult\<rparr>)
     tightFunction (NameAsString tightFunction) = Inr ''(int x''"
  by (simp add: getParameterList_def characterRange_def tightResult_def tightSource_def
      tightFunction_def freshHandler_def)

lemma tight_submitted:
  "submitted tightResult freshHandler =
     [ReplaceText 0 4 ''int f__original__'',
      InsertTextAfter 25
        (createMemoizedDefinition tightFunction ''int f(int x'' ''f__original__''),
      InsertTextBefore 0 ''int f(int x;\<newline>'']"
  using submitted_Some [OF tight_Target tight_getParameterList]
  by (simp add: tightFunction_def)





text \<open>
  C5, at the definition \<^verbatim>\<open>int f(int x){ return x; }\<close>, whose opening brace follows
  the closing parenthesis directly: the definition is well formed and \<^verbatim>\<open>run\<close>
  returns, the wrapper is inserted one character past the closing brace, but its text
  starts with \<^verbatim>\<open>int f(int x {\<close> and so is not the wrapper under the full prototype
  \<^verbatim>\<open>int f(int x)\<close>.
\<close>

theorem wrapper_edit_tight_definition:
  "wellFormed tightSource tightFunction
   \<and> fst (run tightResult freshHandler) = None
   \<and> submitted tightResult freshHandler ! 1 =
       InsertTextAfter 25
         ''\<newline>\<newline>int f(int x {\<newline>static const auto proxy = memoize(f__original__);\<newline>return proxy(x);\<newline>}''
   \<and> wrapperText tightFunction =
       ''\<newline>\<newline>int f(int x) {\<newline>static const auto proxy = memoize(f__original__);\<newline>return proxy(x);\<newline>}''
   \<and> submitted tightResult freshHandler ! 1 \<noteq> InsertTextAfter 25 (wrapperText tightFunction)"
proof -
  have "wellFormed tightSource tightFunction"
    by (simp add: wellFormed_def tightSource_def tightFunction_def)
  moreover have "fst (run tightResult freshHandler) = None"
    by (simp add: run_Some [OF tight_Target tight_getParameterList])
  moreover have names: "getParameterNames tightFunction = ''x''"
    by (simp add: getParameterNames_def tightFunction_def getNameAsString_def)
  moreover have "wrapperText tightFunction =
       ''\<newline>\<newline>int f(int x) {\<newline>static const auto proxy = memoize(f__original__);\<newline>return proxy(x);\<newline>}''"
    by (simp add: wrapperText_def prototypeText_def parameterListText_def tightFunction_def
        getNameAsString_def)
  ultimately show ?thesis
    by (simp add: tight_submitted createMemoizedDefinition_def)
qed

text \<open>
  C7, at the same definition \<^verbatim>\<open>int f(int x){ return x; }\<close>: the forward declaration
  is inserted at the start of the definition and is the last of the three edits, but
  its text is \<^verbatim>\<open>int f(int x;\<close>, not the prototype \<^verbatim>\<open>int f(int x)\<close> followed by the
  terminator.
\<close>

theorem forward_declaration_tight_definition:
  "wellFormed tightSource tightFunction
   \<and> length (submitted tightResult freshHandler) = 3
   \<and> submitted tightResult freshHandler ! 2 = InsertTextBefore 0 ''int f(int x;\<newline>''
   \<and> forwardDeclarationText tightFunction = ''int f(int x);\<newline>''
   \<and> submitted tightResult freshHandler ! 2 \<noteq>
       InsertTextBefore 0 (forwardDeclarationText tightFunction)"
proof -
  have "wellFormed tightSource tightFunction"
    by (simp add: wellFormed_def tightSource_def tightFunction_def)
  moreover have "forwardDeclarationText tightFunction = ''int f(int x);\<newline>''"
    by (simp add: forwardDeclarationText_def prototypeText_def parameterListText_def
        tightFunction_def getNameAsString_def)
  ultimately show ?thesis
    by (simp add: tight_submitted)
qed

text \<open>
  C8. No edit produced for a match touches the body of the function: the replacement
  ends before the parameter list, the wrapper is inserted past the closing brace and
  the forward declaration at the start of the definition, so none of the three refers
  to a location from the opening to the closing brace.
\<close>

theorem edits_outside_body:
  assumes "Target Result = Some f"
    and "wellFormed (ResultSourceManager Result) f"
  shows "length (submitted Result h) = 3
    \<and> (\<forall>e \<in> set (submitted Result h). \<forall>k. insideBody f k \<longrightarrow> \<not> editTouches e k)
    \<and> (\<exists>e t. submitted Result h ! 0 = ReplaceText (LocStart f) e t
          \<and> e < Location f + int (length (NameAsString f)))
    \<and> (\<exists>t. submitted Result h ! 1 = InsertTextAfter (LocEnd f + 1) t)
    \<and> (\<exists>t. submitted Result h ! 2 = InsertTextBefore (LocStart f) t)"
proof -
  obtain PL where PL:
    "getParameterList (h\<lparr>SourceManager := ResultSourceManager Result\<rparr>) f (NameAsString f) = Inr PL"
    using getParameterList_wellFormed [OF assms(2), of "h\<lparr>SourceManager := ResultSourceManager Result\<rparr>"]
    by auto
  note sub = submitted_Some [OF assms(1) PL]
  obtain BodyStart where body: "BodyLocStart f = Some BodyStart"
    and start: "LocStart f \<le> Location f"
    and name: "Location f + int (length (NameAsString f)) < BodyStart"
    using assms(2) by (auto simp: wellFormed_def split: option.splits)
  have "\<not> editTouches e k" if "e \<in> set (submitted Result h)" and "insideBody f k" for e k
  proof -
    from that(2) body have k: "BodyStart \<le> k" "k \<le> LocEnd f"
      by (simp_all add: insideBody_def)
    from that(1) consider
        t where "e = ReplaceText (LocStart f) (Location f + (int (length (NameAsString f)) - 1)) t"
      | t where "e = InsertTextAfter (LocEnd f + 1) t"
      | t where "e = InsertTextBefore (LocStart f) t"
      unfolding sub by auto
    then show ?thesis
    proof cases
      case 1
      with k name show ?thesis by simp
    next
      case 2
      with k show ?thesis by simp
    next
      case 3
      with k name start show ?thesis by simp
    qed
  qed
  then show ?thesis
    by (simp add: sub)
qed

theorem edits_outside_body_witness:
  "insideBody exampleFunction 30 \<and> insideBody exampleFunction 50
   \<and> \<not> editTouches (submitted exampleResult freshHandler ! 0) 30
   \<and> \<not> editTouches (submitted exampleResult freshHandler ! 1) 50
   \<and> \<not> editTouches (submitted exampleResult freshHandler ! 2) 30"
proof -
  note outside = edits_outside_body [OF example_Target example_wellFormed, of freshHandler]
  have inside: "insideBody exampleFunction 30" "insideBody exampleFunction 50"
    by (simp_all add: insideBody_def exampleFunction_def)
  have "submitted exampleResult freshHandler ! i \<in> set (submitted exampleResult freshHandler)"
    if "i < 3" for i
    using outside that by simp
  then have "submitted exampleResult freshHandler ! 0 \<in> set (submitted exampleResult freshHandler)"
    and "submitted exampleResult freshHandler ! 1 \<in> set (submitted exampleResult freshHandler)"
    and "submitted exampleResult freshHandler ! 2 \<in> set (submitted exampleResult freshHandler)"
    by simp_all
  with outside inside show ?thesis by blast
qed

lemma getParameterList_not_NullTarget:
  "getParameterList h f Name \<noteq> Inl NullTarget"
  by (simp add: getParameterList_def characterRange_def split: option.splits)

text \<open>
  C9. When the node bound to the target is not null, \<^verbatim>\<open>run\<close> does not stop at the
  null check and the rewriting proceeds: the rename is submitted, and for a well-formed
  definition \<^verbatim>\<open>run\<close> returns. A null target stops \<^verbatim>\<open>run\<close> with the fatal
  \<open>NullTarget\<close>, before any edit is submitted.
\<close>

theorem run_null_target:
  "(Target Result = Some f \<longrightarrow>
      fst (run Result h) \<noteq> Some NullTarget \<and> submitted Result h \<noteq> [])
   \<and> (Target Result = Some f \<and> wellFormed (ResultSourceManager Result) f \<longrightarrow>
      fst (run Result h) = None)
   \<and> (Target Result = None \<longrightarrow>
      run Result h = (Some NullTarget, h\<lparr>SourceManager := ResultSourceManager Result\<rparr>)
      \<and> submitted Result h = [])"
proof (intro conjI impI)
  assume t: "Target Result = Some f"
  show "fst (run Result h) \<noteq> Some NullTarget"
  proof (cases "getParameterList (h\<lparr>SourceManager := ResultSourceManager Result\<rparr>) f (NameAsString f)")
    case (Inl e)
    then have "e \<noteq> NullTarget"
      using getParameterList_not_NullTarget [of "h\<lparr>SourceManager := ResultSourceManager Result\<rparr>" f "NameAsString f"]
      by auto
    then show ?thesis by (simp add: run_Some_failed [OF t Inl])
  next
    case (Inr PL)
    show ?thesis by (simp add: run_Some [OF t Inr])
  qed
  show "submitted Result h \<noteq> []"
    using submitted_first [OF t, of h] by auto
next
  assume "Target Result = Some f \<and> wellFormed (ResultSourceManager Result) f"
  then have t: "Target Result = Some f" and w: "wellFormed (ResultSourceManager Result) f"
    by simp_all
  obtain PL where PL:
    "getParameterList (h\<lparr>SourceManager := ResultSourceManager Result\<rparr>) f (NameAsString f) = Inr PL"
    using getParameterList_wellFormed [OF w, of "h\<lparr>SourceManager := ResultSourceManager Result\<rparr>"]
    by auto
  show "fst (run Result h) = None"
    by (simp add: run_Some [OF t PL])
next
  assume n: "Target Result = None"
  then show "run Result h = (Some NullTarget, h\<lparr>SourceManager := ResultSourceManager Result\<rparr>)"
    by (simp add: run_def)
  from n show "submitted Result h = []"
    by (simp add: submitted_def run_def)
qed

theorem run_null_target_witness:
  "fst (run exampleResult freshHandler) = None
   \<and> submitted exampleResult freshHandler \<noteq> []
   \<and> run (exampleResult\<lparr>Target := None\<rparr>) freshHandler =
       (Some NullTarget, freshHandler\<lparr>SourceManager := exampleSource\<rparr>)"
  using run_null_target [of exampleResult exampleFunction freshHandler]
    run_null_target [of "exampleResult\<lparr>Target := None\<rparr>" exampleFunction freshHandler]
    example_Target example_wellFormed
  by (simp add: exampleResult_def)

text \<open>
  C10. A parameter without a name contributes the empty string to the parameter names,
  so that \<open>x\<close>, an unnamed parameter and \<open>z\<close> give \<open>x, , z\<close>; the collection
  returns a string for every parameter list, and whether \<^verbatim>\<open>run\<close> stops with an
  error does not depend on the parameters or their names.
\<close>

theorem getParameterNames_unnamed:
  "getParameterNames (f\<lparr>Parameters := ps @ [p\<lparr>Identifier := None\<rparr>] @ qs\<rparr>) =
     commaSeparated (map getNameAsString ps @ [[]] @ map getNameAsString qs)
   \<and> getParameterNames
       (f\<lparr>Parameters := [\<lparr>Identifier = Some ''x'', TypeAsString = t1\<rparr>,
                           \<lparr>Identifier = None, TypeAsString = t2\<rparr>,
                           \<lparr>Identifier = Some ''z'', TypeAsString = t3\<rparr>]\<rparr>) = ''x, , z''
   \<and> fst (run (Result\<lparr>Target := Some (f\<lparr>Parameters := ps\<rparr>)\<rparr>) h) =
       fst (run (Result\<lparr>Target := Some f\<rparr>) h)"
proof (intro conjI)
  show "getParameterNames (f\<lparr>Parameters := ps @ [p\<lparr>Identifier := None\<rparr>] @ qs\<rparr>) =
     commaSeparated (map getNameAsString ps @ [[]] @ map getNameAsString qs)"
    by (simp add: getParameterNames_def getParameterNames_loop_commaSeparated getNameAsString_def)
  show "getParameterNames
       (f\<lparr>Parameters := [\<lparr>Identifier = Some ''x'', TypeAsString = t1\<rparr>,
                           \<lparr>Identifier = None, TypeAsString = t2\<rparr>,
                           \<lparr>Identifier = Some ''z'', TypeAsString = t3\<rparr>]\<rparr>) = ''x, , z''"
    by (simp add: getParameterNames_def getNameAsString_def)
  show "fst (run (Result\<lparr>Target := Some (f\<lparr>Parameters := ps\<rparr>)\<rparr>) h) =
       fst (run (Result\<lparr>Target := Some f\<rparr>) h)"
    by (simp add: run_def renameOriginalFunction_def getFunctionPrototype_def
        getParameterList_def Let_def split: option.splits sum.splits)
qed

lemma example_submitted:
  "submitted exampleResult freshHandler =
     [ReplaceText 0 4 ''int f__original__'',
      InsertTextAfter 51
        (createMemoizedDefinition exampleFunction ''int f(int x, float y, char z)''
           ''f__original__''),
      InsertTextBefore 0 ''int f(int x, float y, char z);\<newline>'']"
  using submitted_Some [OF example_Target example_getParameterList]
  by (simp add: exampleFunction_def)

text \<open>
  C2, as the specification states it, fails: the forward declaration is inserted at the
  very location where the range of the replacement starts, so its target is not
  strictly less than every location of the replacement.
\<close>

theorem insertBefore_not_strictly_below:
  "\<not> insertBeforeStrictlyBelow (submitted exampleResult freshHandler)"
  by (simp add: example_submitted insertBeforeStrictlyBelow_def)

text \<open>
  C2, amended. For a well-formed match the target of the insertion before equals the
  first location of the replacement's range, is no greater than its last location
  (strictly less when the definition starts before the name), and is strictly less
  than the target of the insertion after; the insertion before is submitted last,
  after the replacement and the insertion after.
\<close>

theorem insertBefore_target_order:
  assumes "Target Result = Some f"
    and "wellFormed (ResultSourceManager Result) f"
  shows "map kindOf (submitted Result h) = [Replace, InsertAfter, InsertBefore]
    \<and> editLocations (submitted Result h ! 2) = [LocStart f]
    \<and> editLocations (submitted Result h ! 0) =
        [LocStart f, Location f + int (length (NameAsString f)) - 1]
    \<and> LocStart f \<le> Location f + int (length (NameAsString f)) - 1
    \<and> (LocStart f < Location f \<longrightarrow>
         LocStart f < Location f + int (length (NameAsString f)) - 1)
    \<and> editLocations (submitted Result h ! 1) = [LocEnd f + 1]
    \<and> LocStart f < LocEnd f + 1"
proof -
  obtain PL where PL:
    "getParameterList (h\<lparr>SourceManager := ResultSourceManager Result\<rparr>) f (NameAsString f) = Inr PL"
    using getParameterList_wellFormed [OF assms(2), of "h\<lparr>SourceManager := ResultSourceManager Result\<rparr>"]
    by auto
  obtain BodyStart where start: "LocStart f \<le> Location f"
    and nonempty: "0 < length (NameAsString f)"
    and name: "Location f + int (length (NameAsString f)) < BodyStart"
    and brace: "BodyStart \<le> LocEnd f"
    using assms(2) by (auto simp: wellFormed_def split: option.splits)
  have "LocStart f \<le> Location f + int (length (NameAsString f)) - 1"
    using start nonempty by linarith
  moreover have "LocStart f < Location f + int (length (NameAsString f)) - 1"
    if "LocStart f < Location f"
    using that nonempty by linarith
  moreover have "LocStart f < LocEnd f + 1"
    using start name brace by linarith
  moreover have "Location f + (int (length (NameAsString f)) - 1) =
      Location f + int (length (NameAsString f)) - 1"
    by simp
  ultimately show ?thesis
    by (simp add: submitted_Some [OF assms(1) PL])
qed

theorem insertBefore_target_order_witness:
  "map kindOf (submitted exampleResult freshHandler) = [Replace, InsertAfter, InsertBefore]
   \<and> editLocations (submitted exampleResult freshHandler ! 2) = [0]
   \<and> editLocations (submitted exampleResult freshHandler ! 0) = [0, 4]
   \<and> editLocations (submitted exampleResult freshHandler ! 1) = [51]"
  using insertBefore_target_order [OF example_Target example_wellFormed, of freshHandler]
  by (simp add: exampleFunction_def)

text \<open>
  C4, at a definition whose opening brace follows the closing parenthesis directly,
  \<^verbatim>\<open>int f(int x){ return x; }\<close>: the definition is well formed, the prototype of the
  specification is \<^verbatim>\<open>int f(int x)\<close>, and the prototype computed lacks the closing
  parenthesis: the characters copied from the buffer stop before the character that
  precedes the opening brace, which here is the parenthesis and not a blank.
\<close>

theorem getFunctionPrototype_tight_definition:
  "wellFormed tightSource tightFunction
   \<and> prototypeText tightFunction = ''int f(int x)''
   \<and> getFunctionPrototype \<lparr>Rewriter = [], SourceManager = tightSource\<rparr> tightFunction =
       Inr ''int f(int x''"
  by (simp add: wellFormed_def tightSource_def tightFunction_def prototypeText_def
      parameterListText_def getNameAsString_def getFunctionPrototype_def getParameterList_def
      characterRange_def)

end
